theory Spec2Isabelle
  imports Complex_Main
begin

section \<open>Data model of the search overlay (SearchBar.tsx)\<close>

text \<open>
  The component \<open>SearchBar\<close> keeps its state in React hooks and reacts to discrete events:
  key presses, edits of the input field, the debounce timer, and the settling of the promises
  returned by \<open>invoke\<close>. The embedding makes the hook state a record and every event handler a
  function from state to state. Calls of \<open>invoke\<close> are logged in \<open>invoked\<close>; a call whose
  promise has not settled yet is kept in \<open>inflight\<close>.
\<close>

datatype result_type = File | Folder | App

text \<open>
  \<open>score?: number\<close> is an optional IEEE double in the source. A number is embedded as
  the exact value of a finite double, a rational (both zeros have the value 0), or as NaN.
  Infinite values are left out. Arithmetic on doubles is not computed here: where the source
  multiplies, the product is a parameter of the model.
\<close>

datatype number = Finite rat | NaN

record SearchResult =
  path :: string
  name :: string
  type :: result_type
  score :: "number option"

text \<open>The three backend commands reached through \<open>invoke\<close>, each with its one argument.\<close>

datatype command =
    Invoke_search string
  | Invoke_launch_app string
  | Invoke_open_path string

text \<open>How a promise settles: resolved with a value, or rejected with an error (shown as text).\<close>

datatype 'a settled = Resolved 'a | Rejected string

record key_event =
  key :: string
  ctrlKey :: bool
  shiftKey :: bool
  altKey :: bool

text \<open>
  \<open>debounceTimer\<close> holds the armed timer, if any: the time at which it fires and the value of
  \<open>searchQuery\<close> captured by its callback. A timer that has fired or has been cleared is \<open>None\<close>
  (clearing it again has no effect in the source). \<open>clock\<close> counts milliseconds.
\<close>

record state =
  isVisible :: bool
  searchQuery :: string
  results :: "SearchResult list"
  isSearching :: bool
  selectedIndex :: int
  debounceTimer :: "(nat \<times> string) option"
  clock :: nat
  invoked :: "command list"
  inflight :: "command list"
  alerts :: "string list"
  console :: "string list"

definition init :: state where
  "init = \<lparr> isVisible = False, searchQuery = [], results = [], isSearching = False,
            selectedIndex = - 1, debounceTimer = None, clock = 0, invoked = [],
            inflight = [], alerts = [], console = [] \<rparr>"

section \<open>String helpers\<close>

text \<open>
  \<open>String.prototype.trim\<close> removes leading and trailing white space. Characters here are
  8-bit, so the white space of the source is the part of it below 256: tab, line feed,
  vertical tab, form feed, carriage return, space and no-break space.
\<close>

definition is_ws :: "char \<Rightarrow> bool" where
  "is_ws c = (of_char c \<in> {9, 10, 11, 12, 13, 32, 160 :: nat})"

definition trim :: "string \<Rightarrow> string" where
  "trim q = rev (dropWhile is_ws (rev (dropWhile is_ws q)))"

section \<open>The debounce effect and the search request\<close>

text \<open>
  The effect on \<open>[searchQuery]\<close> (lines 52 to 81), run after \<open>searchQuery\<close> has changed. The
  cleanup of the previous run and the first statement both clear the timer.
\<close>

definition searchEffect :: "state \<Rightarrow> state" where
  "searchEffect s =
     (let s1 = s\<lparr>debounceTimer := None\<rparr>
      in if trim (searchQuery s) = []
         then s1\<lparr>results := [], selectedIndex := - 1\<rparr>
         else s1\<lparr>debounceTimer := Some (clock s + 200, searchQuery s)\<rparr>)"

text \<open>
  \<open>setSearchQuery\<close>: React keeps the state and runs no effect when the new value equals the
  old one; otherwise the effect above runs with the new value.
\<close>

definition setSearchQuery :: "string \<Rightarrow> state \<Rightarrow> state" where
  "setSearchQuery q s =
     (if q = searchQuery s then s else searchEffect (s\<lparr>searchQuery := q\<rparr>))"

text \<open>
  \<open>performSearch\<close> up to its \<open>await\<close>: \<open>None\<close> when it returns the empty list at once
  (query shorter than 2), otherwise the call it makes.
\<close>

definition performSearch_request :: "string \<Rightarrow> command option" where
  "performSearch_request query =
     (if length query < 2 then None else Some (Invoke_search query))"

text \<open>
  The timer callback (lines 63 to 74) up to the point where it waits. When \<open>performSearch\<close>
  returns at once, the rest of the callback runs before any other event.
\<close>

definition timerCallback :: "string \<Rightarrow> state \<Rightarrow> state" where
  "timerCallback q s =
     (let s1 = s\<lparr>debounceTimer := None, isSearching := True\<rparr>
      in case performSearch_request q of
           None \<Rightarrow> s1\<lparr>results := [], isSearching := False\<rparr>
         | Some c \<Rightarrow> s1\<lparr>invoked := invoked s @ [c], inflight := inflight s @ [c]\<rparr>)"

text \<open>
  The rest of the callback, run when the promise of \<open>invoke('search', {query})\<close> settles.
  A rejection is caught inside \<open>performSearch\<close>, logged, and turned into the empty list.
\<close>

definition search_settled :: "string \<Rightarrow> SearchResult list settled \<Rightarrow> state \<Rightarrow> state" where
  "search_settled q out s =
     (if Invoke_search q \<in> set (inflight s)
      then let s1 = s\<lparr>inflight := remove1 (Invoke_search q) (inflight s)\<rparr>
           in case out of
                Resolved rs \<Rightarrow> s1\<lparr>results := rs, isSearching := False\<rparr>
              | Rejected e \<Rightarrow>
                  s1\<lparr>console := console s @ [''Search error: '' @ e],
                     results := [], isSearching := False\<rparr>
      else s)"

text \<open>Time passes by \<open>d\<close> milliseconds; an armed timer whose time has come fires.\<close>

definition elapse :: "nat \<Rightarrow> state \<Rightarrow> state" where
  "elapse d s =
     (let s1 = s\<lparr>clock := clock s + d\<rparr>
      in case debounceTimer s of
           None \<Rightarrow> s1
         | Some (deadline, q) \<Rightarrow> if deadline \<le> clock s + d then timerCallback q s1 else s1)"

section \<open>Activation\<close>

text \<open>\<open>handleResultClick\<close> up to its \<open>await\<close> (lines 113 to 121).\<close>

definition handleResultClick :: "SearchResult \<Rightarrow> state \<Rightarrow> state" where
  "handleResultClick result s =
     (let c = (if type result = App then Invoke_launch_app (path result)
               else Invoke_open_path (path result))
      in s\<lparr>invoked := invoked s @ [c], inflight := inflight s @ [c]\<rparr>)"

text \<open>The rest of \<open>handleResultClick\<close> (lines 122 to 127), when the promise settles.\<close>

definition activation_settled :: "command \<Rightarrow> unit settled \<Rightarrow> state \<Rightarrow> state" where
  "activation_settled c out s =
     (case c of
        Invoke_search _ \<Rightarrow> s
      | _ \<Rightarrow>
        if c \<in> set (inflight s)
        then let s1 = s\<lparr>inflight := remove1 c (inflight s)\<rparr>
             in case out of
                  Resolved _ \<Rightarrow> s1\<lparr>isVisible := False\<rparr>
                | Rejected e \<Rightarrow>
                    s1\<lparr>console := console s @ [''Failed to open: '' @ e],
                       alerts := alerts s @ [''Failed to open: '' @ e]\<rparr>
        else s)"

section \<open>Keyboard\<close>

definition toggleVisibility :: "state \<Rightarrow> state" where
  "toggleVisibility s =
     setSearchQuery []
       (s\<lparr>isVisible := \<not> isVisible s, results := [], selectedIndex := - 1\<rparr>)"

text \<open>The handler installed by \<open>useKeyboardShortcut\<close> (useKeyboardShortcut.ts).\<close>

definition useKeyboardShortcut ::
  "string \<Rightarrow> bool \<Rightarrow> bool \<Rightarrow> bool \<Rightarrow> (state \<Rightarrow> state) \<Rightarrow> key_event \<Rightarrow> state \<Rightarrow> state" where
  "useKeyboardShortcut k ctrl shift alt callback e s =
     (if key e = k \<and> ctrlKey e = ctrl \<and> shiftKey e = shift \<and> altKey e = alt
      then callback s else s)"

text \<open>\<open>results[i]\<close> of the source: \<open>undefined\<close> outside the array.\<close>

definition index :: "'a list \<Rightarrow> int \<Rightarrow> 'a option" where
  "index xs i = (if 0 \<le> i \<and> i < int (length xs) then Some (xs ! nat i) else None)"

text \<open>\<open>handleKeyDown\<close> of the component (lines 84 to 98).\<close>

definition handleKeyDown :: "key_event \<Rightarrow> state \<Rightarrow> state" where
  "handleKeyDown event s =
     (if \<not> isVisible s then s
      else if key event = ''Escape'' then s\<lparr>isVisible := False\<rparr>
      else if key event = ''ArrowDown''
        then s\<lparr>selectedIndex := min (selectedIndex s + 1) (int (length (results s)) - 1)\<rparr>
      else if key event = ''ArrowUp''
        then s\<lparr>selectedIndex := max (selectedIndex s - 1) (- 1)\<rparr>
      else if key event = ''Enter'' \<and> selectedIndex s \<ge> 0
        then (case index (results s) (selectedIndex s) of
                Some r \<Rightarrow> handleResultClick r s
              | None \<Rightarrow> s)
      else s)"

text \<open>
  A key press reaches the listener on \<open>document\<close> and then the one on \<open>window\<close>, which is
  the shortcut \<open>useKeyboardShortcut(' ', true, false, false, toggleVisibility)\<close>.
\<close>

definition keydown :: "key_event \<Rightarrow> state \<Rightarrow> state" where
  "keydown e s = useKeyboardShortcut '' '' True False False toggleVisibility e (handleKeyDown e s)"

section \<open>Events and runs\<close>

datatype event =
    KeyDown key_event
  | InputChange string
  | Click nat
  | Elapse nat
  | SearchSettled string "SearchResult list settled"
  | ActivationSettled command "unit settled"

fun step :: "event \<Rightarrow> state \<Rightarrow> state" where
  "step (KeyDown e) s = keydown e s"
| "step (InputChange q) s = setSearchQuery q s"
| "step (Click i) s = (case index (results s) (int i) of Some r \<Rightarrow> handleResultClick r s | None \<Rightarrow> s)"
| "step (Elapse d) s = elapse d s"
| "step (SearchSettled q out) s = search_settled q out s"
| "step (ActivationSettled c out) s = activation_settled c out s"

fun run :: "event list \<Rightarrow> state \<Rightarrow> state" where
  "run [] s = s"
| "run (e # es) s = run es (step e s)"

section \<open>Rendering\<close>

text \<open>\<open>Math.round\<close> of a finite double: the nearest integer, a half rounding up. It is
  exact on the value it is given.\<close>

definition Math_round :: "rat \<Rightarrow> int" where
  "Math_round x = \<lfloor>x + 1 / 2\<rfloor>"

fun digits :: "nat \<Rightarrow> string" where
  "digits n = (if n < 10 then [char_of (48 + n)]
               else digits (n div 10) @ [char_of (48 + n mod 10)])"

declare digits.simps [simp del]

definition show_int :: "int \<Rightarrow> string" where
  "show_int i = (if i < 0 then CHR ''-'' # digits (nat (- i)) else digits (nat i))"

text \<open>
  What React puts into the page for the expression
  \<open>{result.score && (<span className="result-score">{Math.round(result.score * 100)}%</span>)}\<close>
  (lines 181 to 183): nothing for \<open>undefined\<close>, the number itself for a falsy number
  (\<open>&&\<close> yields its left operand, the falsy numbers are 0, -0 and NaN, and React renders
  a number as its text), and the span with the percentage otherwise. The parameter \<open>mul\<close>
  is the multiplication of doubles, which rounds its result to a double; the model does not
  compute it, so nothing is said here about the digits of the label beyond
  \<open>Math.round\<close> of that product.
\<close>

datatype node = Nothing | NumberText string | ScoreSpan string

definition render_score :: "(rat \<Rightarrow> rat \<Rightarrow> rat) \<Rightarrow> number option \<Rightarrow> node" where
  "render_score mul sc =
     (case sc of
        None \<Rightarrow> Nothing
      | Some NaN \<Rightarrow> NumberText ''NaN''
      | Some (Finite x) \<Rightarrow>
          if x = 0 then NumberText (show_int 0)
          else ScoreSpan (show_int (Math_round (mul x 100)) @ ''%''))"

text \<open>The conditions under which the result list (line 157), the message
  \<open>No results found\<close> (line 196) and the spinner (line 146) are rendered.\<close>

definition shows_results :: "state \<Rightarrow> bool" where
  "shows_results s = (length (results s) > 0)"

definition shows_no_match :: "state \<Rightarrow> bool" where
  "shows_no_match s = (\<not> isSearching s \<and> length (results s) = 0 \<and> length (searchQuery s) \<ge> 2)"

definition shows_spinner :: "state \<Rightarrow> bool" where
  "shows_spinner s = isSearching s"

section \<open>Bursts of edits\<close>

text \<open>
  A burst is a first edit followed by further edits, each given with the time that passed
  since the edit before it. \<open>rapid prev es\<close> holds when every gap is shorter than the
  200 ms of the timer and every edit changes the text.
\<close>

fun burst :: "(nat \<times> string) list \<Rightarrow> event list" where
  "burst [] = []"
| "burst ((d, q) # es) = Elapse d # InputChange q # burst es"

fun rapid :: "string \<Rightarrow> (nat \<times> string) list \<Rightarrow> bool" where
  "rapid prev [] = True"
| "rapid prev ((d, q) # es) = (d < 200 \<and> q \<noteq> prev \<and> rapid q es)"

definition final_query :: "string \<Rightarrow> (nat \<times> string) list \<Rightarrow> string" where
  "final_query q0 es = last (q0 # map snd es)"

section \<open>The range of the selection\<close>

definition selection_in_range :: "state \<Rightarrow> bool" where
  "selection_in_range s =
     (- 1 \<le> selectedIndex s \<and> selectedIndex s < int (length (results s)))"

section \<open>Sample inputs\<close>

definition ctrl_space :: key_event where
  "ctrl_space = \<lparr> key = '' '', ctrlKey = True, shiftKey = False, altKey = False \<rparr>"

definition plain_key :: "string \<Rightarrow> key_event" where
  "plain_key k = \<lparr> key = k, ctrlKey = False, shiftKey = False, altKey = False \<rparr>"

definition report_pdf :: SearchResult where
  "report_pdf = \<lparr> path = ''C:/docs/report.pdf'', name = ''report.pdf'', type = File,
                  score = Some (Finite (9 / 10)) \<rparr>"

definition report_dir :: SearchResult where
  "report_dir = \<lparr> path = ''C:/docs/reports'', name = ''reports'', type = Folder,
                  score = Some (Finite 0) \<rparr>"

definition report_app :: SearchResult where
  "report_app = \<lparr> path = ''C:/apps/reporter.exe'', name = ''Reporter'', type = App,
                  score = None \<rparr>"

definition abc_txt :: SearchResult where
  "abc_txt = \<lparr> path = ''C:/docs/abc.txt'', name = ''abc.txt'', type = File, score = None \<rparr>"

definition abcd_txt :: SearchResult where
  "abcd_txt = \<lparr> path = ''C:/docs/abcd.txt'', name = ''abcd.txt'', type = File, score = None \<rparr>"

text \<open>The overlay is opened, \<open>abc\<close> is typed and its request goes out; the text becomes
  \<open>abcd\<close> and that request goes out too; the answer for \<open>abcd\<close> arrives first.\<close>

definition stale_trace :: "event list" where
  "stale_trace =
     [KeyDown ctrl_space, InputChange ''abc'', Elapse 200, InputChange ''abcd'', Elapse 200,
      SearchSettled ''abcd'' (Resolved [abcd_txt]), SearchSettled ''abc'' (Resolved [abc_txt])]"

text \<open>Three results for \<open>report\<close>, the last one selected; then the text changes and the new
  search finds one result.\<close>

definition shrink_trace :: "event list" where
  "shrink_trace =
     [KeyDown ctrl_space, InputChange ''report'', Elapse 200,
      SearchSettled ''report'' (Resolved [report_pdf, report_dir, report_app]),
      KeyDown (plain_key ''ArrowDown''), KeyDown (plain_key ''ArrowDown''),
      KeyDown (plain_key ''ArrowDown''),
      InputChange ''reports'', Elapse 200,
      SearchSettled ''reports'' (Resolved [report_dir])]"

text \<open>Three results for \<open>report\<close>, the second one selected; then the text changes and the new
  search fails.\<close>

definition replace_trace :: "event list" where
  "replace_trace =
     [KeyDown ctrl_space, InputChange ''report'', Elapse 200,
      SearchSettled ''report'' (Resolved [report_pdf, report_dir, report_app]),
      KeyDown (plain_key ''ArrowDown''), KeyDown (plain_key ''ArrowDown''),
      InputChange ''reporx'', Elapse 200,
      SearchSettled ''reporx'' (Rejected ''engine unavailable'')]"

text \<open>One result is shown and selected, then Escape is pressed.\<close>

definition escape_trace :: "event list" where
  "escape_trace =
     [KeyDown ctrl_space, InputChange ''abc'', Elapse 200,
      SearchSettled ''abc'' (Resolved [abc_txt]),
      KeyDown (plain_key ''ArrowDown''), KeyDown (plain_key ''Escape'')]"

text \<open>A state with one result whose selection points past the end of the list.\<close>

definition past_end :: state where
  "past_end = init\<lparr>isVisible := True, searchQuery := ''abc'', results := [abc_txt],
                   selectedIndex := 2\<rparr>"

text \<open>The run above up to, but without, the late answer for \<open>abc\<close>.\<close>

definition stale_prefix :: "event list" where
  "stale_prefix =
     [KeyDown ctrl_space, InputChange ''abc'', Elapse 200, InputChange ''abcd'', Elapse 200,
      SearchSettled ''abcd'' (Resolved [abcd_txt])]"

text \<open>\<open>abc\<close> is typed and its request goes out; the text becomes \<open>abcd\<close>, and 100 ms
  later the request for \<open>abc\<close> is still in flight and the timer for \<open>abcd\<close> is armed.\<close>

definition pending_trace :: "event list" where
  "pending_trace =
     [KeyDown ctrl_space, InputChange ''abc'', Elapse 200, InputChange ''abcd'', Elapse 100]"

text \<open>\<open>abc\<close> is typed and the overlay is closed before the timer fires, once with Escape and
  once with the toggle; then 200 ms pass.\<close>

definition escape_pending_trace :: "event list" where
  "escape_pending_trace =
     [KeyDown ctrl_space, InputChange ''abc'', KeyDown (plain_key ''Escape''), Elapse 200]"

definition toggle_pending_trace :: "event list" where
  "toggle_pending_trace =
     [KeyDown ctrl_space, InputChange ''abc'', KeyDown ctrl_space, Elapse 200]"

text \<open>Three results for \<open>report\<close>; Arrow Down twice and Enter activate the folder.\<close>

definition activate_trace :: "event list" where
  "activate_trace =
     [KeyDown ctrl_space, InputChange ''report'', Elapse 200,
      SearchSettled ''report'' (Resolved [report_pdf, report_dir, report_app]),
      KeyDown (plain_key ''ArrowDown''), KeyDown (plain_key ''ArrowDown''),
      KeyDown (plain_key ''Enter'')]"

text \<open>The same run, followed by the success of the activation.\<close>

definition activated_trace :: "event list" where
  "activated_trace =
     [KeyDown ctrl_space, InputChange ''report'', Elapse 200,
      SearchSettled ''report'' (Resolved [report_pdf, report_dir, report_app]),
      KeyDown (plain_key ''ArrowDown''), KeyDown (plain_key ''ArrowDown''),
      KeyDown (plain_key ''Enter''),
      ActivationSettled (Invoke_open_path ''C:/docs/reports'') (Resolved ())]"

section \<open>Basic facts about the handlers\<close>

lemmas model_defs = init_def keydown_def useKeyboardShortcut_def handleKeyDown_def
  toggleVisibility_def setSearchQuery_def searchEffect_def trim_def is_ws_def elapse_def
  timerCallback_def performSearch_request_def search_settled_def activation_settled_def
  handleResultClick_def index_def ctrl_space_def plain_key_def Let_def

lemma setSearchQuery_changed:
  assumes "q \<noteq> searchQuery s"
  shows "searchQuery (setSearchQuery q s) = q"
    and "invoked (setSearchQuery q s) = invoked s"
    and "clock (setSearchQuery q s) = clock s"
    and "debounceTimer (setSearchQuery q s) =
           (if trim q = [] then None else Some (clock s + 200, q))"
  using assms by (simp_all add: setSearchQuery_def searchEffect_def Let_def)

lemma elapse_before_deadline:
  assumes "debounceTimer s = (if b then None else Some (clock s + 200, q))" and "d < 200"
  shows "elapse d s = s\<lparr>clock := clock s + d\<rparr>"
  using assms by (simp add: elapse_def Let_def)

lemma elapse_armed:
  assumes "debounceTimer s = (if trim q = [] then None else Some (clock s + 200, q))"
  shows "invoked (elapse d s) =
           invoked s @ (if 200 \<le> d \<and> trim q \<noteq> [] \<and> 2 \<le> length q then [Invoke_search q] else [])"
  using assms
  by (simp add: elapse_def timerCallback_def performSearch_request_def Let_def)

lemma burst_run:
  assumes "q0 \<noteq> searchQuery s" and "rapid q0 es"
  shows "invoked (run (InputChange q0 # burst es) s) = invoked s \<and>
         searchQuery (run (InputChange q0 # burst es) s) = final_query q0 es \<and>
         debounceTimer (run (InputChange q0 # burst es) s) =
           (if trim (final_query q0 es) = [] then None
            else Some (clock (run (InputChange q0 # burst es) s) + 200, final_query q0 es))"
  using assms
proof (induction es arbitrary: q0 s)
  case Nil
  then show ?case by (simp add: final_query_def setSearchQuery_changed)
next
  case (Cons e es)
  obtain d q where e: "e = (d, q)" by (cases e)
  from Cons.prems e have d: "d < 200" and q: "q \<noteq> q0" and r: "rapid q es" by simp_all
  let ?s0 = "setSearchQuery q0 s"
  let ?s1 = "elapse d ?s0"
  have s1: "?s1 = ?s0\<lparr>clock := clock ?s0 + d\<rparr>"
    using setSearchQuery_changed(3,4) [OF Cons.prems(1)] d
    by (intro elapse_before_deadline [where b = "trim q0 = []" and q = q0]) simp_all
  have "q \<noteq> searchQuery ?s1"
    using q setSearchQuery_changed(1) [OF Cons.prems(1)] by (simp add: s1)
  from Cons.IH [OF this r]
  have "invoked (run (InputChange q # burst es) ?s1) = invoked ?s1 \<and>
        searchQuery (run (InputChange q # burst es) ?s1) = final_query q es \<and>
        debounceTimer (run (InputChange q # burst es) ?s1) =
          (if trim (final_query q es) = [] then None
           else Some (clock (run (InputChange q # burst es) ?s1) + 200, final_query q es))" .
  moreover have "invoked ?s1 = invoked s"
    using setSearchQuery_changed(2) [OF Cons.prems(1)] by (simp add: s1)
  moreover have "final_query q0 (e # es) = final_query q es"
    by (simp add: final_query_def e)
  moreover have "run (InputChange q0 # burst (e # es)) s = run (InputChange q # burst es) ?s1"
    by (simp add: e)
  ultimately show ?case by simp
qed

text \<open>The two key listeners act on different keys, so their order does not matter.\<close>

lemma keydown_cases:
  "keydown e s =
     (if key e = '' '' \<and> ctrlKey e \<and> \<not> shiftKey e \<and> \<not> altKey e then toggleVisibility s
      else handleKeyDown e s)"
  by (simp add: keydown_def useKeyboardShortcut_def handleKeyDown_def)

lemma arrow_down_in_range:
  assumes "selection_in_range s"
  shows "selection_in_range (handleKeyDown (plain_key ''ArrowDown'') s)"
  using assms by (auto simp: selection_in_range_def handleKeyDown_def plain_key_def)

lemma arrow_up_in_range:
  assumes "selection_in_range s"
  shows "selection_in_range (handleKeyDown (plain_key ''ArrowUp'') s)"
  using assms by (auto simp: selection_in_range_def handleKeyDown_def plain_key_def)

lemma keydown_in_range:
  assumes "selection_in_range s"
  shows "selection_in_range (keydown e s)"
  using assms
  by (auto simp: selection_in_range_def keydown_def useKeyboardShortcut_def handleKeyDown_def
      toggleVisibility_def setSearchQuery_def searchEffect_def handleResultClick_def Let_def
      split: option.splits)

lemma arrow_down_selectedIndex:
  assumes "isVisible s"
  shows "selectedIndex (keydown (plain_key ''ArrowDown'') s) =
           min (selectedIndex s + 1) (int (length (results s)) - 1)"
  using assms
  by (simp add: keydown_def useKeyboardShortcut_def handleKeyDown_def plain_key_def)

lemma arrow_up_selectedIndex:
  assumes "isVisible s"
  shows "selectedIndex (keydown (plain_key ''ArrowUp'') s) = max (selectedIndex s - 1) (- 1)"
  using assms
  by (simp add: keydown_def useKeyboardShortcut_def handleKeyDown_def plain_key_def)

lemma step_in_range:
  assumes "selection_in_range s"
    and "case e of Elapse _ \<Rightarrow> False | SearchSettled _ _ \<Rightarrow> False | _ \<Rightarrow> True"
  shows "selection_in_range (step e s)"
proof (cases e)
  case (KeyDown k)
  then show ?thesis using assms(1) by (simp add: keydown_in_range)
next
  case (InputChange q)
  then show ?thesis
    using assms(1)
    by (simp add: selection_in_range_def setSearchQuery_def searchEffect_def Let_def)
next
  case (Click i)
  then show ?thesis
    using assms(1)
    by (simp add: selection_in_range_def handleResultClick_def Let_def split: option.splits)
next
  case (Elapse d)
  then show ?thesis using assms(2) by simp
next
  case (SearchSettled q out)
  then show ?thesis using assms(2) by simp
next
  case (ActivationSettled c out)
  then show ?thesis
    using assms(1)
    by (cases c; cases out) (simp_all add: selection_in_range_def activation_settled_def Let_def)
qed

lemma search_settled_selectedIndex:
  "selectedIndex (search_settled q out s) = selectedIndex s"
  by (simp add: search_settled_def Let_def split: settled.splits)

lemma render_score_nonzero:
  assumes "x \<noteq> 0"
  shows "render_score mul (Some (Finite x)) =
           ScoreSpan (show_int (Math_round (mul x 100)) @ ''%'')"
  using assms by (simp add: render_score_def)

lemma render_score_absent:
  "render_score mul None = Nothing"
  by (simp add: render_score_def)

lemma toggleVisibility_resets:
  "isVisible (toggleVisibility s) = (\<not> isVisible s)"
  "searchQuery (toggleVisibility s) = []"
  "results (toggleVisibility s) = []"
  "selectedIndex (toggleVisibility s) = - 1"
  by (simp_all add: toggleVisibility_def setSearchQuery_def searchEffect_def trim_def Let_def)

lemma toggleVisibility_no_timer:
  assumes "searchQuery s \<noteq> []"
  shows "debounceTimer (toggleVisibility s) = None"
  using assms
  by (simp add: toggleVisibility_def setSearchQuery_def searchEffect_def trim_def Let_def)

lemma escape_only_hides:
  assumes "key e = ''Escape''"
  shows "keydown e s = (if isVisible s then s\<lparr>isVisible := False\<rparr> else s)"
  using assms by (simp add: keydown_def useKeyboardShortcut_def handleKeyDown_def)

lemma activation_success_only_hides:
  assumes "c \<in> set (inflight s)" and "c = Invoke_launch_app p \<or> c = Invoke_open_path p"
  shows "activation_settled c (Resolved ()) s =
           s\<lparr>inflight := remove1 c (inflight s), isVisible := False\<rparr>"
  using assms by (auto simp: activation_settled_def Let_def)


section \<open>Superseded requests\<close>

text \<open>
  C1, as stated: a response that belongs to a superseded query is discarded and never
  overwrites the results of the newer query. In the run \<open>stale_trace\<close> the answer for
  \<open>abc\<close> arrives after the text has become \<open>abcd\<close> and after the answer for \<open>abcd\<close>; it
  replaces the results all the same.
\<close>

theorem C1_stale_response_counterexample:
  "searchQuery (run stale_trace init) = ''abcd'' \<and>
   results (run stale_prefix init) = [abcd_txt] \<and>
   results (run stale_trace init) = [abc_txt]"
  by (simp add: stale_trace_def stale_prefix_def model_defs)

text \<open>
  C1, amended: the response of a search request that is in flight replaces \<open>results\<close> when
  it arrives, whatever the query text is by then, and leaves the query text alone. A change
  of the query text supersedes only a request that has not been issued yet: it cancels the
  armed timer, so that afterwards the only request that the passing of time can issue is the
  one for the new text.
\<close>

theorem C1_response_applied_on_arrival:
  "(Invoke_search q \<in> set (inflight s) \<longrightarrow>
      results (search_settled q (Resolved rs) s) = rs) \<and>
   searchQuery (search_settled q out s) = searchQuery s \<and>
   (q' \<noteq> searchQuery s \<longrightarrow>
      debounceTimer (setSearchQuery q' s) =
        (if trim q' = [] then None else Some (clock s + 200, q')) \<and>
      invoked (elapse d (setSearchQuery q' s)) =
        invoked s @ (if 200 \<le> d \<and> trim q' \<noteq> [] \<and> 2 \<le> length q'
                     then [Invoke_search q'] else []))"
proof -
  have a: "results (search_settled q (Resolved rs) s) = rs"
    if "Invoke_search q \<in> set (inflight s)"
    using that by (simp add: search_settled_def)
  have b: "searchQuery (search_settled q out s) = searchQuery s"
    by (cases out) (simp_all add: search_settled_def Let_def)
  have c: "debounceTimer (setSearchQuery q' s) =
      (if trim q' = [] then None else Some (clock s + 200, q'))"
    if "q' \<noteq> searchQuery s"
    using setSearchQuery_changed(4) [OF that] .
  have d: "invoked (elapse d (setSearchQuery q' s)) =
      invoked s @ (if 200 \<le> d \<and> trim q' \<noteq> [] \<and> 2 \<le> length q'
                   then [Invoke_search q'] else [])"
    if "q' \<noteq> searchQuery s"
  proof -
    have "invoked (elapse d (setSearchQuery q' s)) =
        invoked (setSearchQuery q' s) @
          (if 200 \<le> d \<and> trim q' \<noteq> [] \<and> 2 \<le> length q' then [Invoke_search q'] else [])"
      using setSearchQuery_changed(3,4) [OF that] by (intro elapse_armed) simp
    then show ?thesis
      using setSearchQuery_changed(2) [OF that] by simp
  qed
  show ?thesis
    using a b c d by blast
qed

theorem C1_response_applied_on_arrival_witness:
  "Invoke_search ''abc'' \<in> set (inflight (run pending_trace init)) \<and>
   searchQuery (run pending_trace init) = ''abcd'' \<and>
   debounceTimer (run pending_trace init) = Some (400, ''abcd'') \<and>
   ''abcde'' \<noteq> searchQuery (run pending_trace init) \<and>
   results (search_settled ''abc'' (Resolved [abc_txt]) (run pending_trace init)) = [abc_txt] \<and>
   searchQuery (search_settled ''abc'' (Resolved [abc_txt]) (run pending_trace init)) = ''abcd'' \<and>
   debounceTimer (setSearchQuery ''abcde'' (run pending_trace init)) = Some (500, ''abcde'') \<and>
   invoked (elapse 200 (setSearchQuery ''abcde'' (run pending_trace init))) =
     [Invoke_search ''abc'', Invoke_search ''abcde'']"
proof -
  have h1: "Invoke_search ''abc'' \<in> set (inflight (run pending_trace init))"
    by (simp add: pending_trace_def model_defs)
  have h2: "''abcde'' \<noteq> searchQuery (run pending_trace init)"
    by (simp add: pending_trace_def model_defs)
  have h3: "invoked (run pending_trace init) = [Invoke_search ''abc'']"
    by (simp add: pending_trace_def model_defs)
  have h4: "searchQuery (run pending_trace init) = ''abcd''"
    by (simp add: pending_trace_def model_defs)
  have h5: "trim ''abcde'' \<noteq> []"
    by (simp add: trim_def is_ws_def)
  have h6: "debounceTimer (run pending_trace init) = Some (400, ''abcd'')"
    by (simp add: pending_trace_def model_defs)
  have h7: "clock (run pending_trace init) = 300"
    by (simp add: pending_trace_def model_defs)
  show ?thesis
    using C1_response_applied_on_arrival
            [of "''abc''" "run pending_trace init" "[abc_txt]" "Resolved [abc_txt]" "''abcde''" 200]
          h1 h2 h3 h4 h5 h6 h7
    by simp
qed

section \<open>The range of the selection and its reset\<close>

text \<open>
  C2: in every reachable state \<open>-1 \<le> selection < len(results)\<close>. The arrow keys keep the
  selection in this range (\<open>arrow_down_in_range\<close>, \<open>arrow_up_in_range\<close>), but the timer
  callback replaces \<open>results\<close> without touching \<open>selectedIndex\<close>: in the run \<open>shrink_trace\<close>
  the third of three results is selected and the next search returns one result, which
  leaves the selection at 2 with a list of length 1.
\<close>

theorem C2_selection_past_end:
  "selectedIndex (run shrink_trace init) = 2 \<and>
   length (results (run shrink_trace init)) = 1 \<and>
   \<not> selection_in_range (run shrink_trace init)"
  by (simp add: shrink_trace_def selection_in_range_def model_defs)

text \<open>
  C3: when a search completes and \<open>results\<close> is replaced, the selection is reset to -1.
  In the run \<open>replace_trace\<close> the second result is selected, the next search fails and
  \<open>results\<close> becomes empty, and the selection is still 1.
\<close>

theorem C3_completion_keeps_selection:
  "results (run replace_trace init) = [] \<and> selectedIndex (run replace_trace init) = 1"
  by (simp add: replace_trace_def model_defs)

section \<open>Closing the overlay\<close>

text \<open>
  C4: every operation that closes the overlay (Escape, the toggle hotkey, a successful
  activation) resets query, results and selection to the empty string, the empty list and
  -1. The toggle does (\<open>toggleVisibility_resets\<close>); Escape and a successful activation only
  set the visibility to false (\<open>escape_only_hides\<close>, \<open>activation_success_only_hides\<close>).
  In the run \<open>escape_trace\<close> the overlay is closed by Escape and query, results and selection
  keep their values; in the run \<open>activated_trace\<close> it is closed by a successful activation
  and they keep their values as well. In the run \<open>escape_pending_trace\<close> the timer armed
  before Escape fires on the closed overlay and a search goes out, where after the toggle
  (\<open>toggle_pending_trace\<close>) none does.
\<close>

theorem C4_escape_and_activation_keep_state:
  "\<not> isVisible (run escape_trace init) \<and>
   searchQuery (run escape_trace init) = ''abc'' \<and>
   results (run escape_trace init) = [abc_txt] \<and>
   selectedIndex (run escape_trace init) = 0 \<and>
   \<not> isVisible (run activated_trace init) \<and>
   searchQuery (run activated_trace init) = ''report'' \<and>
   results (run activated_trace init) = [report_pdf, report_dir, report_app] \<and>
   selectedIndex (run activated_trace init) = 1 \<and>
   \<not> isVisible (run escape_pending_trace init) \<and>
   invoked (run escape_pending_trace init) = [Invoke_search ''abc''] \<and>
   \<not> isVisible (run toggle_pending_trace init) \<and>
   invoked (run toggle_pending_trace init) = []"
proof -
  have "\<not> isVisible (run escape_trace init)"
    and "searchQuery (run escape_trace init) = ''abc''"
    and "results (run escape_trace init) = [abc_txt]"
    and "selectedIndex (run escape_trace init) = 0"
    by (simp_all add: escape_trace_def model_defs)
  moreover have "\<not> isVisible (run activated_trace init)"
    and "searchQuery (run activated_trace init) = ''report''"
    and "results (run activated_trace init) = [report_pdf, report_dir, report_app]"
    and "selectedIndex (run activated_trace init) = 1"
    by (simp_all add: activated_trace_def report_dir_def model_defs)
  moreover have "\<not> isVisible (run escape_pending_trace init)"
    and "invoked (run escape_pending_trace init) = [Invoke_search ''abc'']"
    by (simp_all add: escape_pending_trace_def model_defs)
  moreover have "\<not> isVisible (run toggle_pending_trace init)"
    and "invoked (run toggle_pending_trace init) = []"
    by (simp_all add: toggle_pending_trace_def model_defs)
  ultimately show ?thesis by simp
qed

section \<open>Debouncing\<close>

text \<open>
  C5: in a rapid sequence of query changes, each less than 200 ms after the one before, every
  change cancels the armed timer and arms it anew; no search request is issued during the
  sequence, and at most one is issued afterwards, for the final query value. After the
  sequence the timer is armed for the final value, 200 ms after the last change (or not armed
  when that value is blank), and the passing of \<open>d\<close> ms then issues exactly the request for the
  final value if \<open>d\<close> reaches 200 and the value has at least 2 characters, and none otherwise.
\<close>

theorem C5_debounce_one_request_final_query:
  assumes "q0 \<noteq> searchQuery s" and "rapid q0 es"
  shows "invoked (run (InputChange q0 # burst es) s) = invoked s \<and>
         debounceTimer (run (InputChange q0 # burst es) s) =
           (if trim (final_query q0 es) = [] then None
            else Some (clock (run (InputChange q0 # burst es) s) + 200, final_query q0 es)) \<and>
         invoked (elapse d (run (InputChange q0 # burst es) s)) =
           invoked s @
             (if 200 \<le> d \<and> trim (final_query q0 es) \<noteq> [] \<and> 2 \<le> length (final_query q0 es)
              then [Invoke_search (final_query q0 es)] else [])"
proof -
  note b = burst_run [OF assms]
  have "invoked (elapse d (run (InputChange q0 # burst es) s)) =
      invoked (run (InputChange q0 # burst es) s) @
        (if 200 \<le> d \<and> trim (final_query q0 es) \<noteq> [] \<and> 2 \<le> length (final_query q0 es)
         then [Invoke_search (final_query q0 es)] else [])"
    using b by (intro elapse_armed) simp
  with b show ?thesis by simp
qed

theorem C5_debounce_one_request_final_query_witness:
  "''a'' \<noteq> searchQuery init \<and> rapid ''a'' [(50, ''ab''), (120, ''abc'')] \<and>
   invoked (run (InputChange ''a'' # burst [(50, ''ab''), (120, ''abc'')]) init) = [] \<and>
   debounceTimer (run (InputChange ''a'' # burst [(50, ''ab''), (120, ''abc'')]) init) =
     Some (370, ''abc'') \<and>
   invoked (elapse 200 (run (InputChange ''a'' # burst [(50, ''ab''), (120, ''abc'')]) init)) =
     [Invoke_search ''abc'']"
proof -
  have h1: "''a'' \<noteq> searchQuery init"
    by (simp add: init_def)
  have h2: "rapid ''a'' [(50, ''ab''), (120, ''abc'')]"
    by simp
  have h3: "clock (run (InputChange ''a'' # burst [(50, ''ab''), (120, ''abc'')]) init) = 170"
    by (simp add: model_defs)
  have h4: "final_query ''a'' [(50, ''ab''), (120, ''abc'')] = ''abc''"
    by (simp add: final_query_def)
  have h5: "trim ''abc'' \<noteq> []" and h6: "invoked init = []"
    by (simp_all add: trim_def is_ws_def init_def)
  show ?thesis
    using C5_debounce_one_request_final_query [OF h1 h2, of 200] h1 h2 h3 h4 h5 h6
    by simp
qed

section \<open>The minimum length of a query\<close>

text \<open>
  C6: for a query shorter than 2 characters no search request is issued and \<open>results\<close>
  stays empty. \<open>performSearch\<close> makes no call for such a query; when the text changes to it
  and time passes, the log of calls is unchanged; \<open>results\<close>, if empty before, is empty after
  the change and after the timer, and is empty in any case once the 200 ms are over; neither
  the result list nor the message \<open>No results found\<close> is then rendered, nor the spinner
  unless a search was already going on, as in the overlay with an empty query.
\<close>

theorem C6_short_query_no_request:
  assumes "length q < 2" and "q \<noteq> searchQuery s"
  shows "performSearch_request q = None \<and>
         invoked (timerCallback q s) = invoked s \<and>
         results (timerCallback q s) = [] \<and>
         invoked (elapse d (setSearchQuery q s)) = invoked s \<and>
         (results s = [] \<longrightarrow> results (setSearchQuery q s) = [] \<and>
                              results (elapse d (setSearchQuery q s)) = []) \<and>
         (200 \<le> d \<longrightarrow> results (elapse d (setSearchQuery q s)) = [] \<and>
                        \<not> shows_results (elapse d (setSearchQuery q s))) \<and>
         \<not> shows_no_match (elapse d (setSearchQuery q s)) \<and>
         (\<not> isSearching s \<longrightarrow> \<not> shows_spinner (elapse d (setSearchQuery q s))) \<and>
         isVisible (elapse d (setSearchQuery q s)) = isVisible s"
proof -
  have p: "performSearch_request q = None"
    using assms(1) by (simp add: performSearch_request_def)
  have t: "invoked (timerCallback q s') = invoked s'" "results (timerCallback q s') = []" for s'
    using p by (simp_all add: timerCallback_def)
  have i: "invoked (elapse d (setSearchQuery q s)) = invoked s"
    using assms(2) p
    by (simp add: elapse_def setSearchQuery_def searchEffect_def timerCallback_def Let_def)
  have r0: "results s = [] \<Longrightarrow> results (setSearchQuery q s) = []"
    by (simp add: setSearchQuery_def searchEffect_def Let_def)
  have r1: "results s = [] \<Longrightarrow> results (elapse d (setSearchQuery q s)) = []"
    using assms(2) p
    by (simp add: elapse_def setSearchQuery_def searchEffect_def timerCallback_def Let_def)
  have r2: "200 \<le> d \<Longrightarrow> results (elapse d (setSearchQuery q s)) = []"
    using assms(2) p
    by (simp add: elapse_def setSearchQuery_def searchEffect_def timerCallback_def Let_def)
  have q: "searchQuery (elapse d (setSearchQuery q s)) = q"
    using assms(2) p
    by (simp add: elapse_def setSearchQuery_def searchEffect_def timerCallback_def Let_def)
  have n: "\<not> shows_no_match (elapse d (setSearchQuery q s))"
    using assms(1) q by (simp add: shows_no_match_def)
  have sp: "\<not> isSearching s \<Longrightarrow> \<not> shows_spinner (elapse d (setSearchQuery q s))"
    using assms(2) p
    by (simp add: shows_spinner_def elapse_def setSearchQuery_def searchEffect_def
        timerCallback_def Let_def)
  have v: "isVisible (elapse d (setSearchQuery q s)) = isVisible s"
    using assms(2) p
    by (simp add: elapse_def setSearchQuery_def searchEffect_def timerCallback_def Let_def)
  show ?thesis
    using p t i r0 r1 r2 n sp v by (simp add: shows_results_def)
qed

theorem C6_short_query_no_request_witness:
  "length ''a'' < 2 \<and> ''a'' \<noteq> searchQuery (keydown ctrl_space init) \<and>
   results (keydown ctrl_space init) = [] \<and>
   performSearch_request ''a'' = None \<and>
   invoked (elapse 200 (setSearchQuery ''a'' (keydown ctrl_space init))) = [] \<and>
   results (elapse 200 (setSearchQuery ''a'' (keydown ctrl_space init))) = [] \<and>
   \<not> shows_results (elapse 200 (setSearchQuery ''a'' (keydown ctrl_space init))) \<and>
   \<not> shows_no_match (elapse 200 (setSearchQuery ''a'' (keydown ctrl_space init))) \<and>
   \<not> shows_spinner (elapse 200 (setSearchQuery ''a'' (keydown ctrl_space init))) \<and>
   isVisible (elapse 200 (setSearchQuery ''a'' (keydown ctrl_space init)))"
proof -
  have h1: "length ''a'' < 2"
    by simp
  have h2: "''a'' \<noteq> searchQuery (keydown ctrl_space init)"
    by (simp add: model_defs)
  have h3: "results (keydown ctrl_space init) = []"
    and h4: "invoked (keydown ctrl_space init) = []"
    and h5: "\<not> isSearching (keydown ctrl_space init)"
    and h6: "isVisible (keydown ctrl_space init)"
    by (simp_all add: model_defs)
  show ?thesis
    using C6_short_query_no_request [OF h1 h2, of 200] h1 h2 h3 h4 h5 h6
    by simp
qed

section \<open>Activation\<close>

text \<open>
  C7: activating a result calls exactly one backend command, chosen by the kind of the
  result: \<open>launch_app\<close> with the path for an application, \<open>open_path\<close> with the path for a file
  or a folder. The settling of that call, with success or failure, makes no further call.
\<close>

theorem C7_dispatch_by_kind:
  "invoked (handleResultClick r s) =
     invoked s @ [case type r of
                    App \<Rightarrow> Invoke_launch_app (path r)
                  | File \<Rightarrow> Invoke_open_path (path r)
                  | Folder \<Rightarrow> Invoke_open_path (path r)] \<and>
   invoked (activation_settled c out (handleResultClick r s)) = invoked (handleResultClick r s)"
proof -
  have "invoked (activation_settled c out s') = invoked s'" for s'
    by (cases c; cases out) (simp_all add: activation_settled_def Let_def)
  then show ?thesis
    by (cases "type r") (simp_all add: handleResultClick_def Let_def)
qed

text \<open>
  C8: when an activation fails, the message \<open>Failed to open: \<close> followed by the error is shown
  in an alert, and visibility, query, results and selection are left as they are.
\<close>

theorem C8_activation_failure_keeps_state:
  assumes "c \<in> set (inflight s)" and "c = Invoke_launch_app p \<or> c = Invoke_open_path p"
  shows "alerts (activation_settled c (Rejected e) s) = alerts s @ [''Failed to open: '' @ e] \<and>
         isVisible (activation_settled c (Rejected e) s) = isVisible s \<and>
         searchQuery (activation_settled c (Rejected e) s) = searchQuery s \<and>
         results (activation_settled c (Rejected e) s) = results s \<and>
         selectedIndex (activation_settled c (Rejected e) s) = selectedIndex s"
  using assms by (auto simp: activation_settled_def Let_def)

theorem C8_activation_failure_keeps_state_witness:
  "Invoke_open_path ''C:/docs/reports'' \<in> set (inflight (run activate_trace init)) \<and>
   alerts (activation_settled (Invoke_open_path ''C:/docs/reports'') (Rejected ''access denied'')
             (run activate_trace init)) = [''Failed to open: access denied''] \<and>
   isVisible (activation_settled (Invoke_open_path ''C:/docs/reports'') (Rejected ''access denied'')
                (run activate_trace init)) \<and>
   results (activation_settled (Invoke_open_path ''C:/docs/reports'') (Rejected ''access denied'')
              (run activate_trace init)) = [report_pdf, report_dir, report_app] \<and>
   selectedIndex (activation_settled (Invoke_open_path ''C:/docs/reports'')
                    (Rejected ''access denied'') (run activate_trace init)) = 1"
proof -
  have h1: "Invoke_open_path ''C:/docs/reports'' \<in> set (inflight (run activate_trace init))"
    by (simp add: activate_trace_def report_dir_def model_defs)
  have h2: "isVisible (run activate_trace init)"
    and h3: "results (run activate_trace init) = [report_pdf, report_dir, report_app]"
    and h4: "selectedIndex (run activate_trace init) = 1"
    and h5: "alerts (run activate_trace init) = []"
    by (simp_all add: activate_trace_def report_dir_def model_defs)
  show ?thesis
    using C8_activation_failure_keeps_state
            [OF h1, of "''C:/docs/reports''" "''access denied''"] h1 h2 h3 h4 h5
    by simp
qed

section \<open>The score label\<close>

text \<open>
  C9: the percentage label is shown if and only if the score is present, also for a present
  score of 0. For the score 0 the source renders the bare number 0 and no label: the test
  \<open>result.score &&\<close> takes 0 for absent. (For every other finite score the label is
  rendered, \<open>render_score_nonzero\<close>, and for an absent score nothing is,
  \<open>render_score_absent\<close>.)
\<close>

theorem C9_zero_score_renders_bare_zero:
  "render_score mul (Some (Finite 0)) = NumberText ''0'' \<and>
   render_score mul (Some (Finite 0)) \<noteq> ScoreSpan ''0%''"
proof -
  have "show_int 0 = ''0''"
    by code_simp
  then show ?thesis
    by (simp add: render_score_def)
qed

section \<open>Enter\<close>

text \<open>
  C10: Enter activates a result only when the overlay is visible, the selection is at least 0
  and \<open>results\<close> has an entry at the selection; the result activated is that entry. In every
  other state, also when the selection is past the end of \<open>results\<close>, Enter changes nothing
  and calls nothing.
\<close>

theorem C10_enter_guarded:
  assumes "key e = ''Enter''"
  shows "keydown e s =
           (if isVisible s \<and> 0 \<le> selectedIndex s \<and> selectedIndex s < int (length (results s))
            then handleResultClick (results s ! nat (selectedIndex s)) s
            else s)"
  using assms
  by (simp add: keydown_def useKeyboardShortcut_def handleKeyDown_def index_def)

theorem C10_enter_guarded_witness:
  "key (plain_key ''Enter'') = ''Enter'' \<and>
   selectedIndex past_end \<ge> int (length (results past_end)) \<and>
   keydown (plain_key ''Enter'') past_end = past_end \<and>
   invoked (keydown (plain_key ''Enter'') past_end) = []"
proof -
  have h1: "key (plain_key ''Enter'') = ''Enter''"
    by (simp add: plain_key_def)
  have h2: "selectedIndex past_end = 2" and h3: "length (results past_end) = 1"
    and h4: "invoked past_end = []"
    by (simp_all add: past_end_def init_def)
  show ?thesis
    using C10_enter_guarded [OF h1, of past_end] h1 h2 h3 h4
    by simp
qed


end
